theory Spec2Isabelle
  imports Main
begin

section \<open>Data model\<close>

text \<open>
  The server of \<^verbatim>\<open>main.go\<close>: a request multiplexer with three routes, wrapped in a CORS
  layer, an access logger and a panic guard. The structs of the program are records.
  An HTTP header collection is Go's \<^verbatim>\<open>map[string][]string\<close>: a partial map from a
  (canonical) field name to the list of its values.
\<close>

type_synonym header = "string \<rightharpoonup> string list"

text \<open>\<^verbatim>\<open>Header.Get\<close>: the first value of the field, the empty string when there is none.\<close>

definition Header_Get :: "header \<Rightarrow> string \<Rightarrow> string" where
  "Header_Get h k = (case h k of None \<Rightarrow> [] | Some [] \<Rightarrow> [] | Some (v # _) \<Rightarrow> v)"

text \<open>\<^verbatim>\<open>Header.Set\<close>: replaces whatever values the field had by the single new one.\<close>

definition Header_Set :: "header \<Rightarrow> string \<Rightarrow> string \<Rightarrow> header" where
  "Header_Set h k v = h(k \<mapsto> [v])"

record Server =
  Host :: string
  Port :: int
  CORSWhitelist :: "string \<rightharpoonup> bool"
  AllowedDefaultMethods :: string

text \<open>
  The fields of \<^verbatim>\<open>http.Request\<close> that the program reads: the method, \<^verbatim>\<open>URL.Path\<close>, the
  request header and the address of the peer.
\<close>

record Request =
  Method :: string
  Path :: string
  Header :: header
  RemoteAddr :: string

text \<open>
  What a handler acts on. \<open>respHeader\<close> is the live map behind \<^verbatim>\<open>w.Header()\<close>.
  \<open>committed\<close> is \<open>None\<close> until the status line is written; from then on it holds the
  status code together with the header fields as they were at that moment, which is what
  the client receives. (net/http takes this copy at once when the handler has asked for
  \<^verbatim>\<open>w.Header()\<close> before, as every path of this program that sets a field does.)
  \<open>respBody\<close> collects the bytes written. \<open>logLines\<close> is the output
  of the standard logger, to which net/http writes too since \<^verbatim>\<open>main\<close> sets no
  \<^verbatim>\<open>ErrorLog\<close> (one entry per call, without the time stamp prefix), and
  \<open>clock\<close> is the text that \<^verbatim>\<open>time.Now().Format("2006-01-02 15:04:05.999999-07")\<close>
  yields when it is called.
\<close>

record conn =
  respHeader :: header
  committed :: "(nat \<times> header) option"
  respBody :: string
  logLines :: "string list"
  clock :: string

definition status :: "conn \<Rightarrow> nat option" where
  "status c = map_option fst (committed c)"

definition sentHeader :: "conn \<Rightarrow> header" where
  "sentHeader c = (case committed c of None \<Rightarrow> Map.empty | Some (_, h) \<Rightarrow> h)"

text \<open>
  A handler either returns or panics; in both cases what it did to the response and to
  the log before that moment stays done.
\<close>

datatype outcome = Returned | Panicked string

type_synonym handler = "Request \<Rightarrow> conn \<Rightarrow> outcome \<times> conn"

section \<open>The response writer of net/http\<close>

text \<open>\<^verbatim>\<open>log.Printf\<close> and \<^verbatim>\<open>log.Println\<close>, given the text already formatted.\<close>

definition log_Print :: "conn \<Rightarrow> string \<Rightarrow> conn" where
  "log_Print c line = c\<lparr>logLines := logLines c @ [line]\<rparr>"

text \<open>
  The notice net/http logs when \<^verbatim>\<open>WriteHeader\<close> is called on a response whose status
  is written already. The real line goes on with the name of the calling function and
  its file and line, which the entry leaves out as it leaves out the time stamp.
\<close>

definition superfluousWriteHeader :: string where
  "superfluousWriteHeader = ''http: superfluous response.WriteHeader call''"

text \<open>
  \<^verbatim>\<open>ResponseWriter.WriteHeader\<close>: the first call fixes the status code and the header
  fields; a later call is superfluous, changes nothing of the response and is reported
  on the log. An informational code (1xx other than 101) is sent at once and fixes
  nothing. The program only ever passes the constants 200, 400 and 500 (net/http panics
  on a code outside 100..999).
\<close>

definition WriteHeader :: "conn \<Rightarrow> nat \<Rightarrow> conn" where
  "WriteHeader c code =
     (if committed c \<noteq> None then log_Print c superfluousWriteHeader
      else if 100 \<le> code \<and> code \<le> 199 \<and> code \<noteq> 101 then c
      else c\<lparr>committed := Some (code, respHeader c)\<rparr>)"

definition bodyAllowedForStatus :: "nat \<Rightarrow> bool" where
  "bodyAllowedForStatus code =
     (if 100 \<le> code \<and> code \<le> 199 then False
      else if code = 204 then False
      else if code = 304 then False
      else True)"

text \<open>
  \<^verbatim>\<open>ResponseWriter.Write\<close>: when no status has been written yet, the status becomes 200
  first; the bytes are then added to the body, unless the status admits no body. (That
  net/http sends no body in reply to a \<^verbatim>\<open>HEAD\<close> request is not part of the model.)
\<close>

definition Write :: "conn \<Rightarrow> string \<Rightarrow> conn" where
  "Write c bs =
     (let c' = (if committed c = None then WriteHeader c 200 else c) in
      case committed c' of
        None \<Rightarrow> c'
      | Some (code, _) \<Rightarrow>
          if bodyAllowedForStatus code then c'\<lparr>respBody := respBody c' @ bs\<rparr> else c')"

text \<open>\<^verbatim>\<open>Header.Del\<close>: the field is removed.\<close>

definition Header_Del :: "header \<Rightarrow> string \<Rightarrow> header" where
  "Header_Del h k = h(k := None)"

text \<open>
  \<^verbatim>\<open>http.Error(w, error, code)\<close>: \<^verbatim>\<open>Content-Length\<close> is removed (since Go 1.23; no
  handler of the program sets it), two header fields are set, then come the status and
  the message followed by a line feed.
\<close>

definition http_Error :: "conn \<Rightarrow> string \<Rightarrow> nat \<Rightarrow> conn" where
  "http_Error c msg code =
     (let c0 = c\<lparr>respHeader := Header_Del (respHeader c) ''Content-Length''\<rparr>;
          c1 = c0\<lparr>respHeader := Header_Set (respHeader c0) ''Content-Type'' ''text/plain; charset=utf-8''\<rparr>;
          c2 = c1\<lparr>respHeader := Header_Set (respHeader c1) ''X-Content-Type-Options'' ''nosniff''\<rparr>;
          c3 = WriteHeader c2 code
      in Write c3 (msg @ [CHR 0x0A]))"

text \<open>
  \<^verbatim>\<open>json.NewEncoder(w).Encode(v)\<close> for a struct \<open>v\<close> with one string field: the object
  with the field's JSON name, followed by a line feed. The three values the program
  encodes (\<open>ok\<close>, the version constant, a formatted time) consist of characters that
  the encoder emits as they are.
\<close>

definition json_Encode :: "conn \<Rightarrow> string \<Rightarrow> string \<Rightarrow> conn" where
  \<open>json_Encode c name v = Write c (''{"'' @ name @ ''":"'' @ v @ ''"}'' @ [CHR 0x0A])\<close>

section \<open>Route handlers\<close>

definition PING_API_VERSION :: string where
  "PING_API_VERSION = ''0.0.2''"

definition pingRoute :: "Server \<Rightarrow> handler" where
  "pingRoute server r c =
     (let c1 = c\<lparr>respHeader := Header_Set (respHeader c) ''Content-Type'' ''application/json''\<rparr>
      in (Returned, json_Encode c1 ''status'' ''ok''))"

definition versionRoute :: "Server \<Rightarrow> handler" where
  "versionRoute server r c =
     (let c1 = c\<lparr>respHeader := Header_Set (respHeader c) ''Content-Type'' ''application/json''\<rparr>
      in (Returned, json_Encode c1 ''version'' PING_API_VERSION))"

definition nowRoute :: "Server \<Rightarrow> handler" where
  "nowRoute server r c =
     (let c1 = c\<lparr>respHeader := Header_Set (respHeader c) ''Content-Type'' ''application/json''\<rparr>;
          serverTime = clock c1
      in (Returned, json_Encode c1 ''server_time'' serverTime))"

text \<open>
  The multiplexer with the three patterns registered in \<^verbatim>\<open>main\<close>. A pattern without a
  trailing slash matches exactly its own path, whatever the method. What net/http does
  with every other request (redirects, 404) is the parameter \<open>other\<close>.
\<close>

definition serveMux :: "Server \<Rightarrow> handler \<Rightarrow> handler" where
  "serveMux server other r c =
     (if Path r = ''/now'' then nowRoute server r c
      else if Path r = ''/ping'' then pingRoute server r c
      else if Path r = ''/version'' then versionRoute server r c
      else other r c)"

section \<open>Middleware\<close>

text \<open>
  The CORS layer in three steps, as the function has them: the choice of the allowed
  origin (the wildcard entry first, then a lookup of the \<^verbatim>\<open>Origin\<close> value as it stands),
  the header fields that follow from it, and the answer to \<^verbatim>\<open>OPTIONS\<close> or the call of
  the next handler.
\<close>

definition allowedOrigin :: "Server \<Rightarrow> Request \<Rightarrow> string" where
  "allowedOrigin server r =
     (if CORSWhitelist server ''*'' = Some True then ''*''
      else let origin = Header_Get (Header r) ''Origin'' in
           if CORSWhitelist server origin \<noteq> None then origin else [])"

definition corsHeaders :: "Server \<Rightarrow> Request \<Rightarrow> conn \<Rightarrow> conn" where
  "corsHeaders server r c =
     (let ao = allowedOrigin server r in
      if ao \<noteq> [] then
        let allowHeaders = ''Content-Type'';
            (allowHeaders, h0) =
              (if ao \<noteq> ''*''
               then (allowHeaders @ '', Authorization'',
                     Header_Set (respHeader c) ''Access-Control-Allow-Credentials'' ''true'')
               else (allowHeaders, respHeader c));
            h1 = Header_Set h0 ''Access-Control-Allow-Origin'' ao;
            h2 = Header_Set h1 ''Access-Control-Allow-Methods'' (AllowedDefaultMethods server);
            h3 = Header_Set h2 ''Access-Control-Allow-Headers'' allowHeaders
        in c\<lparr>respHeader := h3\<rparr>
      else c)"

text \<open>
  The repository also holds an older copy of the program (version 0.0.1). Its CORS layer
  chooses the allowed origin in the same way, but then sets the same four fields for
  every allowed origin, the wildcard included.
\<close>

definition corsHeaders_v001 :: "Server \<Rightarrow> Request \<Rightarrow> conn \<Rightarrow> conn" where
  "corsHeaders_v001 server r c =
     (let ao = allowedOrigin server r in
      if ao \<noteq> [] then
        let h1 = Header_Set (respHeader c) ''Access-Control-Allow-Origin'' ao;
            h2 = Header_Set h1 ''Access-Control-Allow-Methods'' ''GET,OPTIONS'';
            h3 = Header_Set h2 ''Access-Control-Allow-Credentials'' ''true'';
            h4 = Header_Set h3 ''Access-Control-Allow-Headers'' ''Authorization, Content-Type''
        in c\<lparr>respHeader := h4\<rparr>
      else c)"

definition corsMiddleware :: "Server \<Rightarrow> handler \<Rightarrow> handler" where
  "corsMiddleware server next r c =
     (let c1 = corsHeaders server r c in
      if Method r = ''OPTIONS'' then (Returned, WriteHeader c1 200)
      else next r c1)"

text \<open>
  \<^verbatim>\<open>net.SplitHostPort\<close> of the standard library, on which the access logger relies
  for the peer's address. The port starts after the last colon; a host in square brackets
  must end just before that colon; no other bracket and no other colon may occur.
\<close>

datatype AddrError = AddrError string string

fun IndexByte :: "string \<Rightarrow> char \<Rightarrow> nat option" where
  "IndexByte [] b = None"
| "IndexByte (x # xs) b = (if x = b then Some 0 else map_option Suc (IndexByte xs b))"

definition LastIndexByte :: "string \<Rightarrow> char \<Rightarrow> nat option" where
  "LastIndexByte s b =
     (case IndexByte (rev s) b of None \<Rightarrow> None | Some k \<Rightarrow> Some (length s - 1 - k))"

definition checkBrackets ::
  "string \<Rightarrow> string \<Rightarrow> nat \<Rightarrow> nat \<Rightarrow> nat \<Rightarrow> AddrError + string \<times> string" where
  "checkBrackets hostport host i j k =
     (if IndexByte (drop j hostport) (CHR ''['') \<noteq> None
        then Inl (AddrError ''unexpected '[' in address'' hostport)
      else if IndexByte (drop k hostport) (CHR '']'') \<noteq> None
        then Inl (AddrError ''unexpected ']' in address'' hostport)
      else Inr (host, drop (i + 1) hostport))"

definition SplitHostPort :: "string \<Rightarrow> AddrError + string \<times> string" where
  "SplitHostPort hostport =
     (case LastIndexByte hostport (CHR '':'') of
        None \<Rightarrow> Inl (AddrError ''missing port in address'' hostport)
      | Some i \<Rightarrow>
          if take 1 hostport = ''[''
          then (case IndexByte hostport (CHR '']'') of
                  None \<Rightarrow> Inl (AddrError ''missing ']' in address'' hostport)
                | Some e \<Rightarrow>
                    if e + 1 = length hostport
                      then Inl (AddrError ''missing port in address'' hostport)
                    else if e + 1 = i
                      then checkBrackets hostport (take (e - 1) (drop 1 hostport)) i 1 (e + 1)
                    else if take 1 (drop (e + 1) hostport) = '':''
                      then Inl (AddrError ''too many colons in address'' hostport)
                    else Inl (AddrError ''missing port in address'' hostport))
          else let host = take i hostport in
               if IndexByte host (CHR '':'') \<noteq> None
                 then Inl (AddrError ''too many colons in address'' hostport)
               else checkBrackets hostport host i 0 0)"

text \<open>
  The access logger. The wrapped handler runs first; a panic in it passes through, since
  the rest of the function is then not executed.
\<close>

definition logMiddleware :: "Server \<Rightarrow> handler \<Rightarrow> handler" where
  "logMiddleware server next r c =
     (case next r c of
        (Panicked v, c1) \<Rightarrow> (Panicked v, c1)
      | (Returned, c1) \<Rightarrow>
          (case (case Header r ''X-Real-Ip'' of None \<Rightarrow> [] | Some vs \<Rightarrow> vs) of
             [] \<Rightarrow>
               (case SplitHostPort (RemoteAddr r) of
                  Inl splitErr \<Rightarrow>
                    (Returned,
                     http_Error c1 (''Unable to parse client IP: '' @ RemoteAddr r) 400)
                | Inr (ip, _) \<Rightarrow>
                    (Returned, log_Print c1 (ip @ '' '' @ Method r @ '' '' @ Path r)))
           | ip # _ \<Rightarrow>
               (Returned, log_Print c1 (ip @ '' '' @ Method r @ '' '' @ Path r))))"

text \<open>
  The panic guard: a deferred function recovers the panic value, reports it with
  \<^verbatim>\<open>log.Println("recovered", v)\<close> and answers through \<^verbatim>\<open>http.Error\<close>; the handler then
  returns normally. (A panic value is never nil: since Go 1.21, the tool chain of the
  release workflow, \<^verbatim>\<open>panic(nil)\<close> raises a run-time error value.)
\<close>

definition panicMiddleware :: "Server \<Rightarrow> handler \<Rightarrow> handler" where
  "panicMiddleware server next r c =
     (case next r c of
        (Returned, c1) \<Rightarrow> (Returned, c1)
      | (Panicked recoverErr, c1) \<Rightarrow>
          (Returned,
           http_Error (log_Print c1 (''recovered '' @ recoverErr)) ''Internal server error'' 500))"

text \<open>The chain \<^verbatim>\<open>main\<close> installs: the CORS layer innermost, the panic guard outermost.\<close>

definition commonHandler :: "Server \<Rightarrow> handler \<Rightarrow> handler" where
  "commonHandler server other =
     panicMiddleware server (logMiddleware server (corsMiddleware server (serveMux server other)))"

text \<open>
  A response writer as net/http hands it to the handler for a new request, with the log
  and the clock of the process.
\<close>

definition freshConn :: "string list \<Rightarrow> string \<Rightarrow> conn" where
  "freshConn lg t =
     \<lparr>respHeader = Map.empty, committed = None, respBody = [], logLines = lg, clock = t\<rparr>"

section \<open>Start-up: the whitelist\<close>

text \<open>
  \<^verbatim>\<open>strings.ReplaceAll(s, " ", "")\<close> and \<^verbatim>\<open>strings.Split(s, ",")\<close>, as \<^verbatim>\<open>main\<close> calls
  them: every space is removed, and the text is cut at every comma (a text without a
  comma, the empty one included, gives one piece).
\<close>

definition removeSpaces :: "string \<Rightarrow> string" where
  "removeSpaces s = filter (\<lambda>b. b \<noteq> CHR '' '') s"

fun splitComma :: "string \<Rightarrow> string list" where
  "splitComma [] = [[]]"
| "splitComma (b # bs) =
     (if b = CHR '','' then [] # splitComma bs
      else (case splitComma bs of [] \<Rightarrow> [[b]] | p # ps \<Rightarrow> (b # p) # ps))"

definition corsWhitelistRaw :: "string \<Rightarrow> string list" where
  "corsWhitelistRaw corsWhitelistF = splitComma (removeSpaces corsWhitelistF)"

text \<open>
  \<^verbatim>\<open>url.ParseRequestURI(uri)\<close> followed by \<^verbatim>\<open>valid.String()\<close> belongs to Go's net/url
  and is a parameter here: \<open>None\<close> when parsing reports an error, otherwise the
  re-serialised URI.
\<close>

type_synonym uriParser = "string \<Rightarrow> string option"

text \<open>
  The loop over the entries. It stops at the first entry \<^verbatim>\<open>*\<close>; an entry that does not
  parse is reported and skipped; any other entry is stored in its re-serialised form.
  The second component collects the log lines.
\<close>

fun whitelistLoop ::
  "uriParser \<Rightarrow> string list \<Rightarrow> (string \<rightharpoonup> bool) \<times> string list \<Rightarrow> (string \<rightharpoonup> bool) \<times> string list" where
  "whitelistLoop parseURI [] (m, lg) = (m, lg)"
| "whitelistLoop parseURI (uri # rest) (m, lg) =
     (if uri = ''*'' then (m(''*'' \<mapsto> True), lg)
      else (case parseURI uri of
              None \<Rightarrow> whitelistLoop parseURI rest (m, lg @ [''Ignoring incorrect URI '' @ uri])
            | Some valid \<Rightarrow> whitelistLoop parseURI rest (m(valid \<mapsto> True), lg)))"

definition buildWhitelist :: "uriParser \<Rightarrow> string \<Rightarrow> (string \<rightharpoonup> bool) \<times> string list" where
  "buildWhitelist parseURI corsWhitelistF =
     whitelistLoop parseURI (corsWhitelistRaw corsWhitelistF) (Map.empty, [])"

definition newServer :: "uriParser \<Rightarrow> string \<Rightarrow> int \<Rightarrow> string \<Rightarrow> Server" where
  "newServer parseURI hostF portF corsWhitelistF =
     \<lparr>Host = hostF, Port = portF,
      CORSWhitelist = fst (buildWhitelist parseURI corsWhitelistF),
      AllowedDefaultMethods = ''GET,OPTIONS''\<rparr>"

text \<open>
  What \<^verbatim>\<open>url.ParseRequestURI\<close> and \<^verbatim>\<open>String\<close> give on the inputs of the examples
  below: an absolute URI comes back with its scheme in lower case; the empty text and a
  text with neither a scheme nor a leading slash (\<^verbatim>\<open>bad\<close>) are errors. The examples use
  no other input.
\<close>

definition sampleParser :: uriParser where
  "sampleParser uri =
     (if uri = ''https://a.example'' then Some ''https://a.example''
      else if uri = ''HTTPS://b.example'' then Some ''https://b.example''
      else None)"

section \<open>Serving requests one after the other\<close>

text \<open>
  Each request, paired with the reading of the clock when it is served, gets a new
  response writer; the log carries over. The result is the list of the responses, or the
  value of the first panic that left the handler and reached net/http.
\<close>

fun serveAll :: "handler \<Rightarrow> (Request \<times> string) list \<Rightarrow> string list \<Rightarrow> string + conn list" where
  "serveAll h [] lg = Inr []"
| "serveAll h ((r, t) # rs) lg =
     (case h r (freshConn lg t) of
        (Panicked v, c) \<Rightarrow> Inl v
      | (Returned, c) \<Rightarrow>
          (case serveAll h rs (logLines c) of Inl v \<Rightarrow> Inl v | Inr cs \<Rightarrow> Inr (c # cs)))"

section \<open>Shutdown\<close>

text \<open>
  The end of \<^verbatim>\<open>main\<close>. A goroutine runs \<^verbatim>\<open>ListenAndServe\<close>; the main thread waits for a
  signal, then calls \<^verbatim>\<open>Shutdown\<close> with a deadline. What the operating system and net/http
  do are events: \<^verbatim>\<open>ListenAndServe\<close> returns (with \<^verbatim>\<open>ErrServerClosed\<close> or another
  error), one of the two signals handed to \<^verbatim>\<open>signal.NotifyContext\<close> arrives, \<^verbatim>\<open>Shutdown\<close>
  returns (with an error or without).
\<close>

datatype signal = Interrupt | SIGTERM

datatype listenErr = ErrServerClosed | ListenFailure string

datatype event =
    ListenAndServeReturned listenErr
  | SignalReceived signal
  | ShutdownReturned "string option"

datatype mainThread = AwaitingSignal | InShutdown nat

record process =
  mainAt :: mainThread
  listening :: bool
  exitCode :: "nat option"
  printed :: "string list"

definition shutdownTimeout :: nat where
  "shutdownTimeout = 5"

definition startProcess :: process where
  "startProcess =
     \<lparr>mainAt = AwaitingSignal, listening = True, exitCode = None, printed = []\<rparr>"

text \<open>
  One event. \<open>None\<close> means that the event cannot happen in that state: the process has
  exited, \<^verbatim>\<open>ListenAndServe\<close> has returned already, or \<^verbatim>\<open>Shutdown\<close> has not been called.
  \<^verbatim>\<open>log.Fatalf\<close> and \<^verbatim>\<open>os.Exit(1)\<close> end the process with code 1, the return from
  \<^verbatim>\<open>main\<close> with code 0. A signal that arrives after the first changes nothing, the
  context being cancelled already.
\<close>

fun step :: "process \<Rightarrow> event \<Rightarrow> process option" where
  "step p (ListenAndServeReturned err) =
     (if exitCode p \<noteq> None \<or> \<not> listening p then None
      else (case err of
              ErrServerClosed \<Rightarrow> Some (p\<lparr>listening := False\<rparr>)
            | ListenFailure e \<Rightarrow>
                Some (p\<lparr>listening := False, exitCode := Some 1,
                        printed := printed p @ [''Server error: '' @ e]\<rparr>)))"
| "step p (SignalReceived sg) =
     (if exitCode p \<noteq> None then None
      else (case mainAt p of
              AwaitingSignal \<Rightarrow>
                Some (p\<lparr>mainAt := InShutdown shutdownTimeout,
                        printed := printed p @ [''Shutting down server gracefully in 5 seconds...'']\<rparr>)
            | InShutdown t \<Rightarrow> Some p))"
| "step p (ShutdownReturned res) =
     (if exitCode p \<noteq> None then None
      else (case mainAt p of
              AwaitingSignal \<Rightarrow> None
            | InShutdown t \<Rightarrow>
                (case res of
                   Some e \<Rightarrow>
                     Some (p\<lparr>exitCode := Some 1,
                             printed := printed p @ [''Graceful shutdown failed: '' @ e]\<rparr>)
                 | None \<Rightarrow>
                     Some (p\<lparr>exitCode := Some 0, printed := printed p @ [''Server stopped'']\<rparr>))))"

fun run :: "process \<Rightarrow> event list \<Rightarrow> process option" where
  "run p [] = Some p"
| "run p (e # es) = (case step p e of None \<Rightarrow> None | Some p' \<Rightarrow> run p' es)"

section \<open>Concrete servers and requests\<close>

text \<open>
  \<^verbatim>\<open>http.NotFound\<close>, the reply of the multiplexer of net/http to a path that no pattern
  matches.
\<close>

definition NotFound :: handler where
  "NotFound r c = (Returned, http_Error c ''404 page not found'' 404)"

text \<open>The server started with the default \<^verbatim>\<open>--cors "*"\<close>, and one started with a single origin.\<close>

definition wildcardServer :: Server where
  "wildcardServer = newServer sampleParser ''0.0.0.0'' 9001 ''*''"

definition listedServer :: Server where
  "listedServer = newServer sampleParser ''0.0.0.0'' 9001 ''https://a.example''"

definition request :: "string \<Rightarrow> string \<Rightarrow> header \<Rightarrow> string \<Rightarrow> Request" where
  "request m p h a = \<lparr>Method = m, Path = p, Header = h, RemoteAddr = a\<rparr>"


text \<open>
  Two handlers that fail, to stand for a fault in downstream code: one panics before it
  has written anything; the other wraps a handler and panics once that handler has
  returned, which is where the access logger does its work.
\<close>

definition panicsAtOnce :: handler where
  "panicsAtOnce r c = (Panicked ''boom'', c)"

definition panicsAfter :: "handler \<Rightarrow> handler" where
  "panicsAfter next r c =
     (case next r c of (Returned, c1) \<Rightarrow> (Panicked ''boom'', c1) | (Panicked v, c1) \<Rightarrow> (Panicked v, c1))"

section \<open>The CORS layer\<close>

lemma wildcardServer_whitelist: "CORSWhitelist wildcardServer = [''*'' \<mapsto> True]"
  by (simp add: wildcardServer_def newServer_def buildWhitelist_def corsWhitelistRaw_def
      removeSpaces_def)

lemma listedServer_whitelist: "CORSWhitelist listedServer = [''https://a.example'' \<mapsto> True]"
  by (simp add: listedServer_def newServer_def buildWhitelist_def corsWhitelistRaw_def
      removeSpaces_def sampleParser_def)

lemma corsHeaders_wildcard:
  assumes "CORSWhitelist server ''*'' = Some True"
  shows "respHeader (corsHeaders server r c) =
     (respHeader c)(''Access-Control-Allow-Origin'' \<mapsto> [''*''],
        ''Access-Control-Allow-Methods'' \<mapsto> [AllowedDefaultMethods server],
        ''Access-Control-Allow-Headers'' \<mapsto> [''Content-Type''])"
  using assms by (simp add: corsHeaders_def allowedOrigin_def Header_Set_def Let_def)

lemma corsHeaders_listed:
  assumes "allowedOrigin server r = ao" and "ao \<noteq> []" and "ao \<noteq> ''*''"
  shows "respHeader (corsHeaders server r c) =
     (respHeader c)(''Access-Control-Allow-Credentials'' \<mapsto> [''true''],
        ''Access-Control-Allow-Origin'' \<mapsto> [ao],
        ''Access-Control-Allow-Methods'' \<mapsto> [AllowedDefaultMethods server],
        ''Access-Control-Allow-Headers'' \<mapsto> [''Content-Type, Authorization''])"
  using assms by (simp add: corsHeaders_def Header_Set_def Let_def)

lemma corsHeaders_none:
  assumes "allowedOrigin server r = []"
  shows "corsHeaders server r c = c"
  using assms by (simp add: corsHeaders_def Let_def)

lemma corsHeaders_only_header:
  "corsHeaders server r c = c\<lparr>respHeader := respHeader (corsHeaders server r c)\<rparr>"
  by (simp add: corsHeaders_def Let_def split: prod.splits)

lemma pingRoute_fresh:
  assumes "committed c = None"
  shows \<open>pingRoute server r c =
    (Returned, c\<lparr>respHeader := (respHeader c)(''Content-Type'' \<mapsto> [''application/json'']),
                committed := Some (200, (respHeader c)(''Content-Type'' \<mapsto> [''application/json''])),
                respBody := respBody c @ ''{"status":"ok"}'' @ [CHR 0x0A]\<rparr>)\<close>
  using assms
  by (simp add: pingRoute_def json_Encode_def Write_def WriteHeader_def Header_Set_def
      bodyAllowedForStatus_def Let_def)

text \<open>
  C1. When the whitelist holds the wildcard, the header fields that the CORS layer sets
  have \<^verbatim>\<open>Access-Control-Allow-Origin: *\<close> whatever the request is, and the layer leaves
  \<^verbatim>\<open>Access-Control-Allow-Credentials\<close> as it found it. These are the fields with which
  the layer answers an \<^verbatim>\<open>OPTIONS\<close> request or hands over to the next stage.
\<close>

theorem wildcard_allows_every_origin:
  assumes "CORSWhitelist server ''*'' = Some True"
  shows "respHeader (corsHeaders server r c) ''Access-Control-Allow-Origin'' = Some [''*'']
       \<and> respHeader (corsHeaders server r c) ''Access-Control-Allow-Credentials''
           = respHeader c ''Access-Control-Allow-Credentials''
       \<and> corsMiddleware server next r c =
           (if Method r = ''OPTIONS'' then (Returned, WriteHeader (corsHeaders server r c) 200)
            else next r (corsHeaders server r c))"
  by (simp add: corsHeaders_wildcard [OF assms] corsMiddleware_def Let_def)

theorem wildcard_allows_every_origin_witness:
  "CORSWhitelist wildcardServer ''*'' = Some True
   \<and> respHeader (corsHeaders wildcardServer
         (request ''GET'' ''/ping'' [''Origin'' \<mapsto> [''https://b.example'']] ''192.0.2.7:40000'')
         (freshConn [] [])) ''Access-Control-Allow-Origin'' = Some [''*'']
   \<and> respHeader (corsHeaders wildcardServer
         (request ''GET'' ''/ping'' [''Origin'' \<mapsto> [''https://b.example'']] ''192.0.2.7:40000'')
         (freshConn [] [])) ''Access-Control-Allow-Credentials'' = None"
  using wildcard_allows_every_origin [of wildcardServer
      "request ''GET'' ''/ping'' [''Origin'' \<mapsto> [''https://b.example'']] ''192.0.2.7:40000''"
      "freshConn [] []" NotFound]
  by (simp add: wildcardServer_whitelist freshConn_def)

text \<open>
  The older copy of the layer differs here: with the wildcard it sends
  \<^verbatim>\<open>Access-Control-Allow-Credentials: true\<close> as well. The current version has the test
  \<^verbatim>\<open>allowedOrigin != "*"\<close> in front of that field.
\<close>

lemma older_version_sets_credentials_for_wildcard:
  assumes "CORSWhitelist server ''*'' = Some True"
  shows "respHeader (corsHeaders_v001 server r c) ''Access-Control-Allow-Origin'' = Some [''*'']"
    and "respHeader (corsHeaders_v001 server r c) ''Access-Control-Allow-Credentials''
           = Some [''true'']"
  using assms by (simp_all add: corsHeaders_v001_def allowedOrigin_def Header_Set_def Let_def)

text \<open>
  C4. When the whitelist does not hold the wildcard: a request that has an
  \<^verbatim>\<open>Origin\<close> header (its value is not empty) whose value is a key of the whitelist gets
  that very origin in \<^verbatim>\<open>Access-Control-Allow-Origin\<close>, \<^verbatim>\<open>Access-Control-Allow-Credentials: true\<close>
  and an \<^verbatim>\<open>Access-Control-Allow-Headers\<close> list with \<^verbatim>\<open>Authorization\<close> in it; a request
  whose origin is not a key gets no field from the layer at all. These are the fields
  with which the layer answers an \<^verbatim>\<open>OPTIONS\<close> request or hands over to the next stage.
\<close>

theorem listed_origin_is_echoed:
  assumes "CORSWhitelist server ''*'' = None"
  shows "(Header_Get (Header r) ''Origin'' \<noteq> [] \<and>
          CORSWhitelist server (Header_Get (Header r) ''Origin'') \<noteq> None \<longrightarrow>
            respHeader (corsHeaders server r c) ''Access-Control-Allow-Origin''
              = Some [Header_Get (Header r) ''Origin'']
          \<and> respHeader (corsHeaders server r c) ''Access-Control-Allow-Credentials'' = Some [''true'']
          \<and> respHeader (corsHeaders server r c) ''Access-Control-Allow-Headers''
              = Some [''Content-Type, Authorization''])
       \<and> (CORSWhitelist server (Header_Get (Header r) ''Origin'') = None \<longrightarrow>
            corsHeaders server r c = c)
       \<and> corsMiddleware server next r c =
           (if Method r = ''OPTIONS'' then (Returned, WriteHeader (corsHeaders server r c) 200)
            else next r (corsHeaders server r c))"
proof (intro conjI impI)
  assume m: "Header_Get (Header r) ''Origin'' \<noteq> [] \<and>
          CORSWhitelist server (Header_Get (Header r) ''Origin'') \<noteq> None"
  have star: "Header_Get (Header r) ''Origin'' \<noteq> ''*''"
    using m assms by auto
  have ao: "allowedOrigin server r = Header_Get (Header r) ''Origin''"
    using m assms by (simp add: allowedOrigin_def)
  note h = corsHeaders_listed [OF ao _ star, of c]
  show "respHeader (corsHeaders server r c) ''Access-Control-Allow-Origin''
              = Some [Header_Get (Header r) ''Origin'']"
    using m by (simp add: h)
  show "respHeader (corsHeaders server r c) ''Access-Control-Allow-Credentials'' = Some [''true'']"
    using m by (simp add: h)
  show "respHeader (corsHeaders server r c) ''Access-Control-Allow-Headers''
              = Some [''Content-Type, Authorization'']"
    using m by (simp add: h)
next
  assume "CORSWhitelist server (Header_Get (Header r) ''Origin'') = None"
  then have "allowedOrigin server r = []"
    using assms by (simp add: allowedOrigin_def)
  then show "corsHeaders server r c = c" by (rule corsHeaders_none)
next
  show "corsMiddleware server next r c =
           (if Method r = ''OPTIONS'' then (Returned, WriteHeader (corsHeaders server r c) 200)
            else next r (corsHeaders server r c))"
    by (simp add: corsMiddleware_def Let_def)
qed

text \<open>
  The example of the specification: the whitelist holds \<^verbatim>\<open>https://a.example\<close>. A
  preflight request from that origin is answered with the origin and the credentials
  field among the fields sent; one from \<^verbatim>\<open>https://b.example\<close> with none of them; and
  the answer of the route handler to a \<^verbatim>\<open>GET\<close> request from the listed origin carries the
  origin too.
\<close>

theorem listed_origin_is_echoed_witness:
  "CORSWhitelist listedServer ''*'' = None
   \<and> sentHeader (snd (corsMiddleware listedServer NotFound
         (request ''OPTIONS'' ''/ping'' [''Origin'' \<mapsto> [''https://a.example'']] ''192.0.2.7:40000'')
         (freshConn [] []))) ''Access-Control-Allow-Origin'' = Some [''https://a.example'']
   \<and> sentHeader (snd (corsMiddleware listedServer NotFound
         (request ''OPTIONS'' ''/ping'' [''Origin'' \<mapsto> [''https://a.example'']] ''192.0.2.7:40000'')
         (freshConn [] []))) ''Access-Control-Allow-Credentials'' = Some [''true'']
   \<and> sentHeader (snd (corsMiddleware listedServer NotFound
         (request ''OPTIONS'' ''/ping'' [''Origin'' \<mapsto> [''https://a.example'']] ''192.0.2.7:40000'')
         (freshConn [] []))) ''Access-Control-Allow-Headers'' = Some [''Content-Type, Authorization'']
   \<and> sentHeader (snd (corsMiddleware listedServer NotFound
         (request ''OPTIONS'' ''/ping'' [''Origin'' \<mapsto> [''https://b.example'']] ''192.0.2.7:40000'')
         (freshConn [] []))) = Map.empty
   \<and> sentHeader (snd (corsMiddleware listedServer (serveMux listedServer NotFound)
         (request ''GET'' ''/ping'' [''Origin'' \<mapsto> [''https://a.example'']] ''192.0.2.7:40000'')
         (freshConn [] []))) ''Access-Control-Allow-Origin'' = Some [''https://a.example'']"
proof -
  let ?a = "request ''OPTIONS'' ''/ping'' [''Origin'' \<mapsto> [''https://a.example'']] ''192.0.2.7:40000''"
  let ?b = "request ''OPTIONS'' ''/ping'' [''Origin'' \<mapsto> [''https://b.example'']] ''192.0.2.7:40000''"
  let ?g = "request ''GET'' ''/ping'' [''Origin'' \<mapsto> [''https://a.example'']] ''192.0.2.7:40000''"
  let ?c = "freshConn [] []"
  have w: "CORSWhitelist listedServer ''*'' = None"
    by (simp add: listedServer_whitelist)
  note ta = listed_origin_is_echoed [OF w, of ?a ?c NotFound]
  note tb = listed_origin_is_echoed [OF w, of ?b ?c NotFound]
  note tg = listed_origin_is_echoed [OF w, of ?g ?c "serveMux listedServer NotFound"]
  have ma: "Header_Get (Header ?a) ''Origin'' \<noteq> [] \<and>
      CORSWhitelist listedServer (Header_Get (Header ?a) ''Origin'') \<noteq> None"
    by (simp add: listedServer_whitelist request_def Header_Get_def)
  have mg: "Header_Get (Header ?g) ''Origin'' \<noteq> [] \<and>
      CORSWhitelist listedServer (Header_Get (Header ?g) ''Origin'') \<noteq> None"
    by (simp add: listedServer_whitelist request_def Header_Get_def)
  have mb: "CORSWhitelist listedServer (Header_Get (Header ?b) ''Origin'') = None"
    by (simp add: listedServer_whitelist request_def Header_Get_def)
  have oa: "Header_Get (Header ?a) ''Origin'' = ''https://a.example''"
      "Header_Get (Header ?g) ''Origin'' = ''https://a.example''"
    by (simp_all add: request_def Header_Get_def)
  have ha: "respHeader (corsHeaders listedServer ?a ?c) ''Access-Control-Allow-Origin''
        = Some [''https://a.example'']"
      "respHeader (corsHeaders listedServer ?a ?c) ''Access-Control-Allow-Credentials''
        = Some [''true'']"
      "respHeader (corsHeaders listedServer ?a ?c) ''Access-Control-Allow-Headers''
        = Some [''Content-Type, Authorization'']"
    using ta ma oa by simp_all
  have hg: "respHeader (corsHeaders listedServer ?g ?c) ''Access-Control-Allow-Origin''
        = Some [''https://a.example'']"
    using tg mg oa by simp
  have hb: "corsHeaders listedServer ?b ?c = ?c"
    using tb mb by blast
  have ea: "corsMiddleware listedServer NotFound ?a ?c
      = (Returned, WriteHeader (corsHeaders listedServer ?a ?c) 200)"
    using ta by (simp add: request_def)
  have eb: "corsMiddleware listedServer NotFound ?b ?c
      = (Returned, WriteHeader (corsHeaders listedServer ?b ?c) 200)"
    using tb by (simp add: request_def)
  have eg: "corsMiddleware listedServer (serveMux listedServer NotFound) ?g ?c
      = serveMux listedServer NotFound ?g (corsHeaders listedServer ?g ?c)"
    using tg by (simp add: request_def)
  have pg: "Path ?g = ''/ping''"
    by (simp add: request_def)
  have fg: "committed (corsHeaders listedServer ?g ?c) = None"
    by (subst corsHeaders_only_header) (simp add: freshConn_def)
  have sg: "sentHeader (snd (serveMux listedServer NotFound ?g (corsHeaders listedServer ?g ?c)))
      = (respHeader (corsHeaders listedServer ?g ?c))(''Content-Type'' \<mapsto> [''application/json''])"
    using pg by (simp add: serveMux_def pingRoute_fresh [OF fg] sentHeader_def)
  have f: "committed (corsHeaders listedServer ?a ?c) = None"
    by (subst corsHeaders_only_header) (simp add: freshConn_def)
  have sa: "sentHeader (WriteHeader (corsHeaders listedServer ?a ?c) 200)
      = respHeader (corsHeaders listedServer ?a ?c)"
    using f by (simp add: WriteHeader_def sentHeader_def)
  have sb: "sentHeader (WriteHeader ?c 200) = Map.empty"
    by (simp add: WriteHeader_def sentHeader_def freshConn_def)
  show ?thesis
    using w ha hg by (simp add: ea eb eg sa sb sg hb)
qed

text \<open>
  C6. A request with method \<^verbatim>\<open>OPTIONS\<close>, reaching the CORS layer before anything has been
  written, is answered there: the status is 200, nothing is added to the body, the next
  stage does not run (the result does not depend on it), and the header fields sent are
  the ones the layer has just set. With any other method the next stage runs, on the
  response that carries those fields.
\<close>
theorem options_short_circuits:
  "(Method r = ''OPTIONS'' \<and> committed c = None \<longrightarrow>
      corsMiddleware server next r c = (Returned, WriteHeader (corsHeaders server r c) 200)
      \<and> status (snd (corsMiddleware server next r c)) = Some 200
      \<and> respBody (snd (corsMiddleware server next r c)) = respBody c
      \<and> sentHeader (snd (corsMiddleware server next r c)) = respHeader (corsHeaders server r c))
   \<and> (Method r \<noteq> ''OPTIONS'' \<longrightarrow>
      corsMiddleware server next r c = next r (corsHeaders server r c))"
proof -
  have u: "committed (corsHeaders server r c) = committed c"
        "respBody (corsHeaders server r c) = respBody c"
    by (subst corsHeaders_only_header, simp)+
  show ?thesis
    by (simp add: corsMiddleware_def Let_def WriteHeader_def status_def sentHeader_def u)
qed

theorem options_short_circuits_witness:
  "status (snd (corsMiddleware wildcardServer NotFound
        (request ''OPTIONS'' ''/ping'' Map.empty ''192.0.2.7:40000'') (freshConn [] []))) = Some 200
   \<and> respBody (snd (corsMiddleware wildcardServer NotFound
        (request ''OPTIONS'' ''/ping'' Map.empty ''192.0.2.7:40000'') (freshConn [] []))) = []
   \<and> sentHeader (snd (corsMiddleware wildcardServer NotFound
        (request ''OPTIONS'' ''/ping'' Map.empty ''192.0.2.7:40000'') (freshConn [] [])))
        ''Access-Control-Allow-Origin'' = Some [''*'']
   \<and> corsMiddleware wildcardServer NotFound
        (request ''GET'' ''/nowhere'' Map.empty ''192.0.2.7:40000'') (freshConn [] [])
      = NotFound (request ''GET'' ''/nowhere'' Map.empty ''192.0.2.7:40000'')
          (corsHeaders wildcardServer (request ''GET'' ''/nowhere'' Map.empty ''192.0.2.7:40000'')
             (freshConn [] []))"
proof -
  let ?o = "request ''OPTIONS'' ''/ping'' Map.empty ''192.0.2.7:40000''"
  let ?g = "request ''GET'' ''/nowhere'' Map.empty ''192.0.2.7:40000''"
  let ?c = "freshConn [] []"
  have o: "Method ?o = ''OPTIONS'' \<and> committed ?c = None"
    by (simp add: request_def freshConn_def)
  have g: "Method ?g \<noteq> ''OPTIONS''"
    by (simp add: request_def)
  have w: "CORSWhitelist wildcardServer ''*'' = Some True"
    by (simp add: wildcardServer_whitelist)
  have b: "respBody ?c = []"
    by (simp add: freshConn_def)
  have s: "status (snd (corsMiddleware wildcardServer NotFound ?o ?c)) = Some 200
      \<and> respBody (snd (corsMiddleware wildcardServer NotFound ?o ?c)) = respBody ?c
      \<and> sentHeader (snd (corsMiddleware wildcardServer NotFound ?o ?c))
          = respHeader (corsHeaders wildcardServer ?o ?c)"
    using options_short_circuits [of ?o ?c wildcardServer NotFound] o by blast
  have n: "corsMiddleware wildcardServer NotFound ?g ?c
      = NotFound ?g (corsHeaders wildcardServer ?g ?c)"
    using options_short_circuits [of ?g ?c wildcardServer NotFound] g by blast
  show ?thesis
    by (simp add: s n b corsHeaders_wildcard [OF w])
qed

section \<open>The whitelist built at start-up\<close>

lemma whitelistLoop_keeps:
  "m k = Some True \<Longrightarrow> fst (whitelistLoop parseURI es (m, lg)) k = Some True"
  by (induction es arbitrary: m lg) (auto split: option.splits)

lemma whitelistLoop_wildcard:
  "''*'' \<in> set es \<Longrightarrow> fst (whitelistLoop parseURI es (m, lg)) ''*'' = Some True"
  by (induction es arbitrary: m lg) (auto split: option.splits)

lemma whitelistLoop_stored:
  "u \<in> set (takeWhile (\<lambda>e. e \<noteq> ''*'') es) \<Longrightarrow> parseURI u = Some v \<Longrightarrow>
     fst (whitelistLoop parseURI es (m, lg)) v = Some True"
  by (induction es arbitrary: m lg) (auto split: option.splits if_splits simp: whitelistLoop_keeps)

lemma whitelistLoop_dom:
  "dom (fst (whitelistLoop parseURI es (m, lg))) =
     dom m \<union> {v. \<exists>u \<in> set (takeWhile (\<lambda>e. e \<noteq> ''*'') es). parseURI u = Some v}
       \<union> (if ''*'' \<in> set es then {''*''} else {})"
proof (induction es arbitrary: m lg)
  case Nil
  then show ?case by simp
next
  case (Cons e es)
  show ?case
  proof (cases "e = ''*''")
    case True
    then show ?thesis by auto
  next
    case notStar: False
    show ?thesis
    proof (cases "parseURI e")
      case None
      have "{v. \<exists>u \<in> set (takeWhile (\<lambda>e. e \<noteq> ''*'') (e # es)). parseURI u = Some v}
          = {v. \<exists>u \<in> set (takeWhile (\<lambda>e. e \<noteq> ''*'') es). parseURI u = Some v}"
        using notStar None by auto
      then show ?thesis
        using notStar None by (simp add: Cons.IH)
    next
      case (Some a)
      have s: "{v. \<exists>u \<in> set (takeWhile (\<lambda>e. e \<noteq> ''*'') (e # es)). parseURI u = Some v}
          = insert a {v. \<exists>u \<in> set (takeWhile (\<lambda>e. e \<noteq> ''*'') es). parseURI u = Some v}"
        using notStar Some by auto
      have l: "whitelistLoop parseURI (e # es) (m, lg)
          = whitelistLoop parseURI es (m(a \<mapsto> True), lg)"
        using notStar Some by simp
      have d: "dom (m(a \<mapsto> True)) = insert a (dom m)"
        by simp
      have w: "(''*'' \<in> set (e # es)) = (''*'' \<in> set es)"
        using notStar by auto
      show ?thesis
        unfolding l s w Cons.IH d by auto
    qed
  qed
qed

lemma whitelistLoop_log:
  "snd (whitelistLoop parseURI es (m, lg)) =
     lg @ map (\<lambda>u. ''Ignoring incorrect URI '' @ u)
            (filter (\<lambda>u. parseURI u = None) (takeWhile (\<lambda>e. e \<noteq> ''*'') es))"
  by (induction es arbitrary: m lg) (auto split: option.splits)

lemma whitelistLoop_values:
  "\<forall>k. m k \<noteq> Some False \<Longrightarrow> fst (whitelistLoop parseURI es (m, lg)) k \<noteq> Some False"
  by (induction es arbitrary: m lg) (auto split: option.splits if_splits)

text \<open>Every value stored is \<open>True\<close>: a key is in the whitelist exactly when it maps to \<open>True\<close>.\<close>

lemma buildWhitelist_values:
  "fst (buildWhitelist parseURI cors) k \<noteq> Some False"
  by (simp add: buildWhitelist_def whitelistLoop_values)

lemma buildWhitelist_no_empty:
  assumes "\<forall>u. parseURI u \<noteq> Some []"
  shows "fst (buildWhitelist parseURI cors) [] = None"
proof -
  have "[] \<notin> dom (fst (buildWhitelist parseURI cors))"
    unfolding buildWhitelist_def whitelistLoop_dom using assms by auto
  then show ?thesis by auto
qed

lemma corsHeaders_frame:
  "committed (corsHeaders server r c) = committed c"
  "respBody (corsHeaders server r c) = respBody c"
  "logLines (corsHeaders server r c) = logLines c"
  "clock (corsHeaders server r c) = clock c"
  by (subst corsHeaders_only_header, simp)+

lemma corsMiddleware_cong:
  assumes "allowedOrigin s r = allowedOrigin s' r"
    and "AllowedDefaultMethods s = AllowedDefaultMethods s'"
  shows "corsMiddleware s next r c = corsMiddleware s' next r c"
  using assms by (simp add: corsMiddleware_def corsHeaders_def Let_def)

text \<open>
  C10. Without the wildcard, a request whose \<^verbatim>\<open>Origin\<close> value is empty (the header is
  absent) gets no field from the CORS layer. And the empty text is no key of a whitelist
  built at start-up, given that net/url never re-serialises a parsed request URI to the
  empty text (such a URI has a scheme followed by a colon or a path that begins with a
  slash; the empty text itself is refused as an empty URL).
\<close>

theorem no_origin_no_cors_headers:
  "(CORSWhitelist server ''*'' \<noteq> Some True \<and> Header_Get (Header r) ''Origin'' = [] \<longrightarrow>
      corsHeaders server r c = c)
   \<and> ((\<forall>u. parseURI u \<noteq> Some []) \<longrightarrow> fst (buildWhitelist parseURI cors) [] = None)"
proof (intro conjI impI)
  assume "CORSWhitelist server ''*'' \<noteq> Some True \<and> Header_Get (Header r) ''Origin'' = []"
  then have "allowedOrigin server r = []"
    by (simp add: allowedOrigin_def)
  then show "corsHeaders server r c = c"
    by (rule corsHeaders_none)
next
  assume "\<forall>u. parseURI u \<noteq> Some []"
  then show "fst (buildWhitelist parseURI cors) [] = None"
    by (rule buildWhitelist_no_empty)
qed

theorem no_origin_no_cors_headers_witness:
  "corsHeaders listedServer (request ''GET'' ''/ping'' Map.empty ''192.0.2.7:40000'') (freshConn [] [])
     = freshConn [] []
   \<and> fst (buildWhitelist sampleParser ''https://a.example'') [] = None"
proof -
  have a: "CORSWhitelist listedServer ''*'' \<noteq> Some True
      \<and> Header_Get (Header (request ''GET'' ''/ping'' Map.empty ''192.0.2.7:40000'')) ''Origin'' = []"
    by (simp add: listedServer_whitelist request_def Header_Get_def)
  have b: "\<forall>u. sampleParser u \<noteq> Some []"
    by (simp add: sampleParser_def)
  show ?thesis
    using no_origin_no_cors_headers [of listedServer
        "request ''GET'' ''/ping'' Map.empty ''192.0.2.7:40000''" "freshConn [] []"
        sampleParser "''https://a.example''"] a b
    by blast
qed

text \<open>
  C9. When the configured list has an entry \<^verbatim>\<open>*\<close> at any position, the CORS layer acts
  on every request exactly as with the whitelist that holds \<^verbatim>\<open>*\<close> alone, although the
  entries in front of the first \<^verbatim>\<open>*\<close> that parse are stored as keys.
\<close>

theorem wildcard_anywhere_overrides:
  assumes "''*'' \<in> set (corsWhitelistRaw cors)"
  shows "corsMiddleware (newServer parseURI hostF portF cors) next r c
           = corsMiddleware ((newServer parseURI hostF portF cors)\<lparr>CORSWhitelist := [''*'' \<mapsto> True]\<rparr>)
               next r c
       \<and> (\<forall>u v. u \<in> set (takeWhile (\<lambda>e. e \<noteq> ''*'') (corsWhitelistRaw cors)) \<and> parseURI u = Some v
             \<longrightarrow> CORSWhitelist (newServer parseURI hostF portF cors) v = Some True)"
proof (intro conjI allI impI)
  have "CORSWhitelist (newServer parseURI hostF portF cors) ''*'' = Some True"
    using assms by (simp add: newServer_def buildWhitelist_def whitelistLoop_wildcard)
  then have "allowedOrigin (newServer parseURI hostF portF cors) r
      = allowedOrigin ((newServer parseURI hostF portF cors)\<lparr>CORSWhitelist := [''*'' \<mapsto> True]\<rparr>) r"
    by (simp add: allowedOrigin_def)
  then show "corsMiddleware (newServer parseURI hostF portF cors) next r c
           = corsMiddleware ((newServer parseURI hostF portF cors)\<lparr>CORSWhitelist := [''*'' \<mapsto> True]\<rparr>)
               next r c"
    by (rule corsMiddleware_cong) simp
next
  fix u v
  assume "u \<in> set (takeWhile (\<lambda>e. e \<noteq> ''*'') (corsWhitelistRaw cors)) \<and> parseURI u = Some v"
  then show "CORSWhitelist (newServer parseURI hostF portF cors) v = Some True"
    by (auto simp: newServer_def buildWhitelist_def intro: whitelistLoop_stored)
qed

lemma raw_example: "corsWhitelistRaw ''https://a.example, *'' = [''https://a.example'', ''*'']"
  by (simp add: corsWhitelistRaw_def removeSpaces_def)

theorem wildcard_anywhere_overrides_witness:
  "''*'' \<in> set (corsWhitelistRaw ''https://a.example, *'')
   \<and> CORSWhitelist (newServer sampleParser ''0.0.0.0'' 9001 ''https://a.example, *'')
        ''https://a.example'' = Some True
   \<and> respHeader (snd (corsMiddleware (newServer sampleParser ''0.0.0.0'' 9001 ''https://a.example, *'')
        NotFound (request ''OPTIONS'' ''/ping'' [''Origin'' \<mapsto> [''https://a.example'']] ''192.0.2.7:40000'')
        (freshConn [] []))) ''Access-Control-Allow-Origin'' = Some [''*'']"
proof -
  let ?s = "newServer sampleParser ''0.0.0.0'' 9001 ''https://a.example, *''"
  let ?r = "request ''OPTIONS'' ''/ping'' [''Origin'' \<mapsto> [''https://a.example'']] ''192.0.2.7:40000''"
  have a: "''*'' \<in> set (corsWhitelistRaw ''https://a.example, *'')"
    by (simp add: raw_example)
  note t = wildcard_anywhere_overrides [OF a, of sampleParser "''0.0.0.0''" 9001 NotFound ?r
      "freshConn [] []"]
  have p: "''https://a.example'' \<in> set (takeWhile (\<lambda>e. e \<noteq> ''*'') (corsWhitelistRaw ''https://a.example, *''))
      \<and> sampleParser ''https://a.example'' = Some ''https://a.example''"
    by (simp add: raw_example sampleParser_def)
  have s: "CORSWhitelist ?s ''https://a.example'' = Some True"
    using t p by blast
  have e: "corsMiddleware ?s NotFound ?r (freshConn [] [])
      = corsMiddleware (?s\<lparr>CORSWhitelist := [''*'' \<mapsto> True]\<rparr>) NotFound ?r (freshConn [] [])"
    using t by blast
  have h: "respHeader (snd (corsMiddleware (?s\<lparr>CORSWhitelist := [''*'' \<mapsto> True]\<rparr>) NotFound ?r
      (freshConn [] []))) ''Access-Control-Allow-Origin'' = Some [''*'']"
    by (simp add: corsMiddleware_def Let_def request_def WriteHeader_def freshConn_def
        corsHeaders_wildcard corsHeaders_frame)
  show ?thesis
    using a s h by (simp only: e)
qed

text \<open>
  C7, as stated, fails on entries behind a wildcard: with \<^verbatim>\<open>--cors "*,bad"\<close> the entry
  \<^verbatim>\<open>bad\<close> does not parse, yet the loop has stopped before it and nothing is logged.
\<close>

theorem malformed_entry_after_wildcard_unreported:
  "''bad'' \<in> set (corsWhitelistRaw ''*,bad'')
   \<and> sampleParser ''bad'' = None
   \<and> fst (buildWhitelist sampleParser ''*,bad'') ''bad'' = None
   \<and> snd (buildWhitelist sampleParser ''*,bad'') = []"
  by (simp add: corsWhitelistRaw_def removeSpaces_def sampleParser_def buildWhitelist_def)

text \<open>
  C7, amended. The keys of the whitelist are the re-serialised forms of the entries in
  front of the first \<^verbatim>\<open>*\<close> that parse, and \<^verbatim>\<open>*\<close> itself when it is an entry; the
  log has one warning for each entry in front of the first \<^verbatim>\<open>*\<close> that does not parse,
  and none for the entries behind it. At request time the origin is looked up as it
  stands among these keys: no parser takes part, and a handler returns an outcome and a
  response only, so the server it was built for is the same for every request.
\<close>

theorem whitelist_fixed_at_startup:
  "dom (fst (buildWhitelist parseURI cors)) =
     {v. \<exists>u \<in> set (takeWhile (\<lambda>e. e \<noteq> ''*'') (corsWhitelistRaw cors)). parseURI u = Some v}
       \<union> (if ''*'' \<in> set (corsWhitelistRaw cors) then {''*''} else {})
   \<and> snd (buildWhitelist parseURI cors) =
       map (\<lambda>u. ''Ignoring incorrect URI '' @ u)
         (filter (\<lambda>u. parseURI u = None) (takeWhile (\<lambda>e. e \<noteq> ''*'') (corsWhitelistRaw cors)))
   \<and> (CORSWhitelist server ''*'' \<noteq> Some True \<longrightarrow>
        allowedOrigin server r =
          (if Header_Get (Header r) ''Origin'' \<in> dom (CORSWhitelist server)
           then Header_Get (Header r) ''Origin'' else []))"
proof (intro conjI impI)
  show "dom (fst (buildWhitelist parseURI cors)) =
     {v. \<exists>u \<in> set (takeWhile (\<lambda>e. e \<noteq> ''*'') (corsWhitelistRaw cors)). parseURI u = Some v}
       \<union> (if ''*'' \<in> set (corsWhitelistRaw cors) then {''*''} else {})"
    by (simp add: buildWhitelist_def whitelistLoop_dom)
  show "snd (buildWhitelist parseURI cors) =
       map (\<lambda>u. ''Ignoring incorrect URI '' @ u)
         (filter (\<lambda>u. parseURI u = None) (takeWhile (\<lambda>e. e \<noteq> ''*'') (corsWhitelistRaw cors)))"
    by (simp add: buildWhitelist_def whitelistLoop_log)
  assume "CORSWhitelist server ''*'' \<noteq> Some True"
  then show "allowedOrigin server r =
          (if Header_Get (Header r) ''Origin'' \<in> dom (CORSWhitelist server)
           then Header_Get (Header r) ''Origin'' else [])"
    by (simp add: allowedOrigin_def dom_def)
qed

lemma raw_example2:
  "corsWhitelistRaw ''HTTPS://b.example, bad,*,worse'' = [''HTTPS://b.example'', ''bad'', ''*'', ''worse'']"
  by (simp add: corsWhitelistRaw_def removeSpaces_def)

theorem whitelist_fixed_at_startup_witness:
  "dom (fst (buildWhitelist sampleParser ''HTTPS://b.example, bad,*,worse'')) = {''https://b.example'', ''*''}
   \<and> snd (buildWhitelist sampleParser ''HTTPS://b.example, bad,*,worse'') = [''Ignoring incorrect URI bad'']
   \<and> allowedOrigin listedServer
        (request ''GET'' ''/ping'' [''Origin'' \<mapsto> [''https://a.example'']] ''192.0.2.7:40000'')
       = ''https://a.example''
   \<and> allowedOrigin listedServer
        (request ''GET'' ''/ping'' [''Origin'' \<mapsto> [''HTTPS://a.example'']] ''192.0.2.7:40000'')
       = []"
proof -
  let ?cors = "''HTTPS://b.example, bad,*,worse''"
  let ?r = "request ''GET'' ''/ping'' [''Origin'' \<mapsto> [''https://a.example'']] ''192.0.2.7:40000''"
  let ?r' = "request ''GET'' ''/ping'' [''Origin'' \<mapsto> [''HTTPS://a.example'']] ''192.0.2.7:40000''"
  note t = whitelist_fixed_at_startup [of sampleParser ?cors listedServer ?r]
  note t' = whitelist_fixed_at_startup [of sampleParser ?cors listedServer ?r']
  have n: "CORSWhitelist listedServer ''*'' \<noteq> Some True"
    by (simp add: listedServer_whitelist)
  have k: "{v. \<exists>u \<in> set (takeWhile (\<lambda>e. e \<noteq> ''*'') (corsWhitelistRaw ?cors)). sampleParser u = Some v}
      = {''https://b.example''}"
    by (auto simp: raw_example2 sampleParser_def)
  have d: "dom (fst (buildWhitelist sampleParser ?cors)) = {''https://b.example'', ''*''}"
    using t k by (auto simp: raw_example2)
  have l: "snd (buildWhitelist sampleParser ?cors) = [''Ignoring incorrect URI bad'']"
    using t by (simp add: raw_example2 sampleParser_def)
  have a: "allowedOrigin listedServer ?r = ''https://a.example''"
    using t n by (simp add: listedServer_whitelist request_def Header_Get_def)
  have a': "allowedOrigin listedServer ?r' = []"
    using t' n by (simp add: listedServer_whitelist request_def Header_Get_def)
  show ?thesis
    using d l a a' by simp
qed

section \<open>The chain of handlers\<close>

text \<open>The response writer, before and after the status is written.\<close>

lemma WriteHeader_late:
  assumes "committed c = Some (code, h)"
  shows "WriteHeader c code' = log_Print c superfluousWriteHeader"
  using assms by (simp add: WriteHeader_def)

lemma Write_late:
  assumes "committed c = Some (code, h)"
  shows "Write c bs = (if bodyAllowedForStatus code then c\<lparr>respBody := respBody c @ bs\<rparr> else c)"
  using assms by (simp add: Write_def)

lemma http_Error_late:
  assumes "committed c = Some (code, h)"
  shows "committed (http_Error c msg code') = Some (code, h)"
    and "logLines (http_Error c msg code') = logLines c @ [superfluousWriteHeader]"
    and "respBody (http_Error c msg code')
          = (if bodyAllowedForStatus code then respBody c @ msg @ [CHR 0x0A] else respBody c)"
  using assms
  by (simp_all add: http_Error_def Let_def WriteHeader_late [of _ code h] Write_late [of _ code h]
      log_Print_def)

lemma http_Error_fresh:
  assumes "committed c = None" and "code = 400 \<or> code = 500"
  shows "status (http_Error c msg code) = Some code"
    and "respBody (http_Error c msg code) = respBody c @ msg @ [CHR 0x0A]"
    and "logLines (http_Error c msg code) = logLines c"
  using assms
  by (auto simp: http_Error_def Let_def WriteHeader_def Write_def status_def
      bodyAllowedForStatus_def)

lemma cors_ping:
  assumes "Path r = ''/ping''" and "Method r \<noteq> ''OPTIONS''" and "committed c = None"
  shows \<open>fst (corsMiddleware server (serveMux server other) r c) = Returned
     \<and> status (snd (corsMiddleware server (serveMux server other) r c)) = Some 200
     \<and> respBody (snd (corsMiddleware server (serveMux server other) r c))
         = respBody c @ ''{"status":"ok"}'' @ [CHR 0x0A]
     \<and> logLines (snd (corsMiddleware server (serveMux server other) r c)) = logLines c\<close>
proof -
  have n: "committed (corsHeaders server r c) = None"
    using assms(3) by (simp add: corsHeaders_frame)
  show ?thesis
    using assms(1,2)
    by (simp add: corsMiddleware_def serveMux_def pingRoute_fresh [OF n] status_def
        corsHeaders_frame)
qed

text \<open>
  The fields of the CORS layer are part of what is sent: the route handler writes the
  status after them, adding only \<^verbatim>\<open>Content-Type\<close>.
\<close>

lemma cors_ping_sentHeader:
  assumes "Path r = ''/ping''" and "Method r \<noteq> ''OPTIONS''" and "committed c = None"
  shows "sentHeader (snd (corsMiddleware server (serveMux server other) r c))
     = (respHeader (corsHeaders server r c))(''Content-Type'' \<mapsto> [''application/json''])"
proof -
  have n: "committed (corsHeaders server r c) = None"
    using assms(3) by (simp add: corsHeaders_frame)
  show ?thesis
    using assms(1,2)
    by (simp add: corsMiddleware_def serveMux_def pingRoute_fresh [OF n] sentHeader_def)
qed

lemma logMiddleware_resolved:
  assumes "next r c = (Returned, c1)"
    and "(\<exists>ip ips. Header r ''X-Real-Ip'' = Some (ip # ips))
       \<or> (\<exists>host port. SplitHostPort (RemoteAddr r) = Inr (host, port))"
  shows "\<exists>line. logMiddleware server next r c = (Returned, log_Print c1 line)"
  using assms by (auto simp: logMiddleware_def split: option.splits list.splits sum.splits)


lemma panicMiddleware_returns: "fst (panicMiddleware server next r c) = Returned"
  by (simp add: panicMiddleware_def split: prod.splits outcome.splits)

lemma serveAll_answers:
  assumes "\<And>r c. fst (h r c) = Returned"
  shows "\<exists>cs. serveAll h rs lg = Inr cs \<and> length cs = length rs"
proof (induction rs arbitrary: lg)
  case Nil
  then show ?case by simp
next
  case (Cons a rs)
  obtain r t where a: "a = (r, t)" by (cases a)
  obtain c where h: "h r (freshConn lg t) = (Returned, c)"
    using assms [of r "freshConn lg t"] by (cases "h r (freshConn lg t)") auto
  obtain cs where "serveAll h rs (logLines c) = Inr cs" "length cs = length rs"
    using Cons.IH by blast
  then show ?case
    by (simp add: a h)
qed

lemma split_example: "SplitHostPort ''192.0.2.7:40000'' = Inr (''192.0.2.7'', ''40000'')"
  by (simp add: SplitHostPort_def LastIndexByte_def checkBrackets_def)


text \<open>
  C8, amended. A \<^verbatim>\<open>GET\<close> request for \<^verbatim>\<open>/ping\<close> is answered by the route handler with
  status 200 and a body that is the JSON text followed by one line feed, which is what
  \<^verbatim>\<open>Encode\<close> writes. This is the response that leaves the whole chain whenever the access
  logger finds the address of the client (an \<^verbatim>\<open>X-Real-Ip\<close> value, or a peer address of
  the form host:port, which every TCP connection has).
\<close>

theorem ping_answers_ok:
  assumes "Method r = ''GET''" and "Path r = ''/ping''"
  shows \<open>status (snd (corsMiddleware server (serveMux server other) r (freshConn lg t))) = Some 200
     \<and> respBody (snd (corsMiddleware server (serveMux server other) r (freshConn lg t)))
         = ''{"status":"ok"}'' @ [CHR 0x0A]
     \<and> ((\<exists>ip ips. Header r ''X-Real-Ip'' = Some (ip # ips))
          \<or> (\<exists>host port. SplitHostPort (RemoteAddr r) = Inr (host, port)) \<longrightarrow>
         fst (commonHandler server other r (freshConn lg t)) = Returned
         \<and> status (snd (commonHandler server other r (freshConn lg t))) = Some 200
         \<and> respBody (snd (commonHandler server other r (freshConn lg t)))
             = ''{"status":"ok"}'' @ [CHR 0x0A])\<close>
proof -
  let ?inner = "corsMiddleware server (serveMux server other)"
  let ?c = "freshConn lg t"
  have m: "Method r \<noteq> ''OPTIONS''"
    using assms(1) by simp
  have f: "committed ?c = None" "respBody ?c = []"
    by (simp_all add: freshConn_def)
  note p = cors_ping [OF assms(2) m f(1), of server other]
  obtain c1 where c1: "?inner r ?c = (Returned, c1)"
    using p by (cases "?inner r ?c") auto
  have s1: "status c1 = Some 200" and b1: \<open>respBody c1 = ''{"status":"ok"}'' @ [CHR 0x0A]\<close>
    using p c1 f(2) by simp_all
  have chain: "fst (commonHandler server other r ?c) = Returned
         \<and> status (snd (commonHandler server other r ?c)) = Some 200
         \<and> respBody (snd (commonHandler server other r ?c)) = respBody c1"
    if a: "(\<exists>ip ips. Header r ''X-Real-Ip'' = Some (ip # ips))
          \<or> (\<exists>host port. SplitHostPort (RemoteAddr r) = Inr (host, port))"
  proof -
    obtain line where "logMiddleware server ?inner r ?c = (Returned, log_Print c1 line)"
      using logMiddleware_resolved [of ?inner r ?c c1 server] c1 a by blast
    then show ?thesis
      using s1 by (simp add: commonHandler_def panicMiddleware_def log_Print_def status_def)
  qed
  show ?thesis
    using s1 b1 chain c1 by auto
qed

theorem ping_answers_ok_witness:
  \<open>status (snd (commonHandler wildcardServer NotFound
        (request ''GET'' ''/ping'' Map.empty ''192.0.2.7:40000'') (freshConn [] []))) = Some 200
   \<and> respBody (snd (commonHandler wildcardServer NotFound
        (request ''GET'' ''/ping'' Map.empty ''192.0.2.7:40000'') (freshConn [] [])))
       = ''{"status":"ok"}'' @ [CHR 0x0A]\<close>
proof -
  let ?r = "request ''GET'' ''/ping'' Map.empty ''192.0.2.7:40000''"
  have a: "Method ?r = ''GET''" "Path ?r = ''/ping''"
    by (simp_all add: request_def)
  have b: "(\<exists>ip ips. Header ?r ''X-Real-Ip'' = Some (ip # ips))
          \<or> (\<exists>host port. SplitHostPort (RemoteAddr ?r) = Inr (host, port))"
    by (simp add: request_def split_example)
  show ?thesis
    using ping_answers_ok [OF a, of wildcardServer NotFound "[]" "[]"] b by blast
qed

text \<open>
  C8, as stated, fails: the body is not exactly the JSON text, it has one byte more.
\<close>

theorem ping_body_ends_with_line_feed:
  \<open>respBody (snd (commonHandler wildcardServer NotFound
        (request ''GET'' ''/ping'' Map.empty ''192.0.2.7:40000'') (freshConn [] [])))
     = ''{"status":"ok"}'' @ [CHR 0x0A]
   \<and> respBody (snd (commonHandler wildcardServer NotFound
        (request ''GET'' ''/ping'' Map.empty ''192.0.2.7:40000'') (freshConn [] [])))
     \<noteq> ''{"status":"ok"}''\<close>
  by (simp add: commonHandler_def panicMiddleware_def logMiddleware_def corsMiddleware_def
      serveMux_def request_def freshConn_def split_example log_Print_def pingRoute_fresh
      corsHeaders_frame)




text \<open>
  C2, as stated, fails for a fault that happens after the response has been started, as
  any fault in the access logger does: the guard recovers it, but the status already
  written stands.
\<close>

theorem fault_after_response_keeps_status:
  "fst (panicMiddleware wildcardServer
         (panicsAfter (corsMiddleware wildcardServer (serveMux wildcardServer NotFound)))
         (request ''GET'' ''/ping'' Map.empty ''192.0.2.7:40000'') (freshConn [] [])) = Returned
   \<and> status (snd (panicMiddleware wildcardServer
         (panicsAfter (corsMiddleware wildcardServer (serveMux wildcardServer NotFound)))
         (request ''GET'' ''/ping'' Map.empty ''192.0.2.7:40000'') (freshConn [] []))) = Some 200
   \<and> status (snd (panicMiddleware wildcardServer
         (panicsAfter (corsMiddleware wildcardServer (serveMux wildcardServer NotFound)))
         (request ''GET'' ''/ping'' Map.empty ''192.0.2.7:40000'') (freshConn [] []))) \<noteq> Some 500
   \<and> logLines (snd (panicMiddleware wildcardServer
         (panicsAfter (corsMiddleware wildcardServer (serveMux wildcardServer NotFound)))
         (request ''GET'' ''/ping'' Map.empty ''192.0.2.7:40000'') (freshConn [] [])))
       = [''recovered boom'', superfluousWriteHeader]"
proof -
  let ?r = "request ''GET'' ''/ping'' Map.empty ''192.0.2.7:40000''"
  let ?c = "freshConn [] []"
  let ?inner = "corsMiddleware wildcardServer (serveMux wildcardServer NotFound)"
  have r: "Path ?r = ''/ping''" "Method ?r \<noteq> ''OPTIONS''"
    by (simp_all add: request_def)
  have f: "committed ?c = None" "logLines ?c = []"
    by (simp_all add: freshConn_def)
  note p = cors_ping [OF r f(1), of wildcardServer NotFound]
  obtain c1 where c1: "?inner ?r ?c = (Returned, c1)"
    using p by (cases "?inner ?r ?c") auto
  have k: "status c1 = Some 200" "logLines c1 = []"
    using p c1 f by simp_all
  then obtain h where h: "committed c1 = Some (200, h)"
    by (auto simp: status_def)
  have h': "committed (log_Print c1 ''recovered boom'') = Some (200, h)"
    using h by (simp add: log_Print_def)
  have l: "logLines (log_Print c1 ''recovered boom'') = [''recovered boom'']"
    using k by (simp add: log_Print_def)
  show ?thesis
    by (simp add: panicMiddleware_def panicsAfter_def c1 status_def http_Error_late [OF h'] l)
qed

text \<open>
  C2, amended. The guard never lets a panic through. When the handler it wraps panics,
  the guard logs the value and calls \<^verbatim>\<open>http.Error\<close> with 500 on the response as the
  fault left it: the status is 500 when nothing had been written, and the status written
  before the fault otherwise, in which case net/http logs its notice of a superfluous
  call. With the guard outermost, every request of a sequence gets its response.
\<close>

theorem panic_is_recovered:
  "fst (panicMiddleware server next r c) = Returned
   \<and> (\<forall>v c1. next r c = (Panicked v, c1) \<longrightarrow>
         snd (panicMiddleware server next r c)
           = http_Error (log_Print c1 (''recovered '' @ v)) ''Internal server error'' 500
         \<and> (committed c1 = None \<longrightarrow>
              status (snd (panicMiddleware server next r c)) = Some 500
              \<and> respBody (snd (panicMiddleware server next r c))
                  = respBody c1 @ ''Internal server error'' @ [CHR 0x0A]
              \<and> logLines (snd (panicMiddleware server next r c))
                  = logLines c1 @ [''recovered '' @ v])
         \<and> (committed c1 \<noteq> None \<longrightarrow>
              status (snd (panicMiddleware server next r c)) = status c1
              \<and> logLines (snd (panicMiddleware server next r c))
                  = logLines c1 @ [''recovered '' @ v, superfluousWriteHeader]))
   \<and> (\<exists>cs. serveAll (commonHandler server other) rs lg = Inr cs \<and> length cs = length rs)"
proof (intro conjI allI impI)
  show "fst (panicMiddleware server next r c) = Returned"
    by (rule panicMiddleware_returns)
next
  show "\<exists>cs. serveAll (commonHandler server other) rs lg = Inr cs \<and> length cs = length rs"
    by (rule serveAll_answers) (simp add: commonHandler_def panicMiddleware_returns)
next
  fix v c1
  assume n: "next r c = (Panicked v, c1)"
  let ?c2 = "log_Print c1 (''recovered '' @ v)"
  show e: "snd (panicMiddleware server next r c)
      = http_Error ?c2 ''Internal server error'' 500"
    using n by (simp add: panicMiddleware_def)
  have q: "(500::nat) = 400 \<or> (500::nat) = 500"
    by simp
  {
    assume u: "committed c1 = None"
    then have u2: "committed ?c2 = None"
      by (simp add: log_Print_def)
    show "status (snd (panicMiddleware server next r c)) = Some 500"
      unfolding e by (rule http_Error_fresh(1) [OF u2 q])
    show "respBody (snd (panicMiddleware server next r c))
        = respBody c1 @ ''Internal server error'' @ [CHR 0x0A]"
      unfolding e http_Error_fresh(2) [OF u2 q] by (simp add: log_Print_def)
    show "logLines (snd (panicMiddleware server next r c)) = logLines c1 @ [''recovered '' @ v]"
      unfolding e http_Error_fresh(3) [OF u2 q] by (simp add: log_Print_def)
  }
  {
    assume "committed c1 \<noteq> None"
    then obtain code h where h: "committed ?c2 = Some (code, h)" "committed c1 = Some (code, h)"
      by (auto simp: log_Print_def)
    show "status (snd (panicMiddleware server next r c)) = status c1"
      unfolding e status_def http_Error_late(1) [OF h(1)] by (simp add: h(2))
    show "logLines (snd (panicMiddleware server next r c))
        = logLines c1 @ [''recovered '' @ v, superfluousWriteHeader]"
      unfolding e http_Error_late(2) [OF h(1)] by (simp add: log_Print_def)
  }
qed

lemma crash_then_ping:
  "map_sum id (map status) (serveAll (commonHandler wildcardServer panicsAtOnce)
          [(request ''GET'' ''/crash'' Map.empty ''192.0.2.7:40000'', []),
           (request ''GET'' ''/ping'' Map.empty ''192.0.2.7:40000'', [])] [])
     = Inr [Some 500, Some 200]"
  by (simp add: commonHandler_def panicMiddleware_def logMiddleware_def corsMiddleware_def
      serveMux_def request_def freshConn_def split_example log_Print_def pingRoute_fresh
      corsHeaders_frame panicsAtOnce_def http_Error_def Write_def WriteHeader_def Let_def
      status_def bodyAllowedForStatus_def)

theorem panic_is_recovered_witness:
  "status (snd (commonHandler wildcardServer panicsAtOnce
        (request ''GET'' ''/crash'' Map.empty ''192.0.2.7:40000'') (freshConn [] []))) = Some 500
   \<and> logLines (snd (commonHandler wildcardServer panicsAtOnce
        (request ''GET'' ''/crash'' Map.empty ''192.0.2.7:40000'') (freshConn [] []))) = [''recovered boom'']
   \<and> (\<exists>cs. serveAll (commonHandler wildcardServer panicsAtOnce)
          [(request ''GET'' ''/crash'' Map.empty ''192.0.2.7:40000'', []),
           (request ''GET'' ''/ping'' Map.empty ''192.0.2.7:40000'', [])] [] = Inr cs
        \<and> length cs = 2)
   \<and> map_sum id (map status) (serveAll (commonHandler wildcardServer panicsAtOnce)
          [(request ''GET'' ''/crash'' Map.empty ''192.0.2.7:40000'', []),
           (request ''GET'' ''/ping'' Map.empty ''192.0.2.7:40000'', [])] [])
       = Inr [Some 500, Some 200]
   \<and> status (snd (panicMiddleware wildcardServer
         (panicsAfter (corsMiddleware wildcardServer (serveMux wildcardServer NotFound)))
         (request ''GET'' ''/ping'' Map.empty ''192.0.2.7:40000'') (freshConn [] []))) = Some 200
   \<and> logLines (snd (panicMiddleware wildcardServer
         (panicsAfter (corsMiddleware wildcardServer (serveMux wildcardServer NotFound)))
         (request ''GET'' ''/ping'' Map.empty ''192.0.2.7:40000'') (freshConn [] [])))
       = [''recovered boom'', superfluousWriteHeader]"
proof -
  let ?r = "request ''GET'' ''/crash'' Map.empty ''192.0.2.7:40000''"
  let ?p = "request ''GET'' ''/ping'' Map.empty ''192.0.2.7:40000''"
  let ?next = "logMiddleware wildcardServer
      (corsMiddleware wildcardServer (serveMux wildcardServer panicsAtOnce))"
  let ?c1 = "corsHeaders wildcardServer ?r (freshConn [] [])"
  have n: "?next ?r (freshConn [] []) = (Panicked ''boom'', ?c1)"
    by (simp add: logMiddleware_def corsMiddleware_def serveMux_def panicsAtOnce_def request_def)
  have u: "committed ?c1 = None" "logLines ?c1 = []"
    by (simp_all add: corsHeaders_frame freshConn_def)
  note t = panic_is_recovered [of wildcardServer ?next ?r "freshConn [] []" panicsAtOnce
      "[(?r, []), (?p, [])]" "[]"]
  have s: "status (snd (panicMiddleware wildcardServer ?next ?r (freshConn [] []))) = Some 500"
    using t n u by blast
  have l: "logLines (snd (panicMiddleware wildcardServer ?next ?r (freshConn [] [])))
      = logLines ?c1 @ [''recovered '' @ ''boom'']"
    using t n u by blast
  have a: "\<exists>cs. serveAll (commonHandler wildcardServer panicsAtOnce) [(?r, []), (?p, [])] [] = Inr cs
      \<and> length cs = 2"
    using t [THEN conjunct2, THEN conjunct2]
    by (simp del: serveAll.simps add: numeral_2_eq_2)
  let ?inner = "corsMiddleware wildcardServer (serveMux wildcardServer NotFound)"
  have pr: "Path ?p = ''/ping''" "Method ?p \<noteq> ''OPTIONS''"
    by (simp_all add: request_def)
  have f: "committed (freshConn [] []) = None" "logLines (freshConn [] []) = []"
    by (simp_all add: freshConn_def)
  note cp = cors_ping [OF pr f(1), of wildcardServer NotFound]
  obtain d where d: "?inner ?p (freshConn [] []) = (Returned, d)"
    using cp by (cases "?inner ?p (freshConn [] [])") auto
  have k: "status d = Some 200" "logLines d = []"
    using cp d f by simp_all
  then have kc: "committed d \<noteq> None"
    by (auto simp: status_def)
  have pa: "panicsAfter ?inner ?p (freshConn [] []) = (Panicked ''boom'', d)"
    by (simp add: panicsAfter_def d)
  note t2 = panic_is_recovered [of wildcardServer "panicsAfter ?inner" ?p "freshConn [] []"
      NotFound "[]" "[]"]
  have s2: "status (snd (panicMiddleware wildcardServer (panicsAfter ?inner) ?p (freshConn [] [])))
      = status d"
    using t2 pa kc by blast
  have l2: "logLines (snd (panicMiddleware wildcardServer (panicsAfter ?inner) ?p (freshConn [] [])))
      = logLines d @ [''recovered '' @ ''boom'', superfluousWriteHeader]"
    using t2 pa kc by blast
  show ?thesis
    using s l a u crash_then_ping s2 l2 k by (simp add: commonHandler_def del: serveAll.simps)
qed

section \<open>Exit codes\<close>

lemma run_snoc:
  "run p (es @ [e]) = (case run p es of None \<Rightarrow> None | Some q \<Rightarrow> step q e)"
  by (induction es arbitrary: p) (auto split: option.splits)

lemma step_shutdown_invariant:
  assumes "step q e = Some p"
    and "\<forall>t. mainAt q = InShutdown t \<longrightarrow> t = shutdownTimeout \<and> signalled"
  shows "\<forall>t. mainAt p = InShutdown t \<longrightarrow>
           t = shutdownTimeout \<and> (signalled \<or> (\<exists>sg. e = SignalReceived sg))"
  using assms
  by (cases e) (auto split: if_splits listenErr.splits mainThread.splits option.splits)

lemma run_shutdown_invariant:
  "run startProcess evs = Some p \<Longrightarrow>
     \<forall>t. mainAt p = InShutdown t \<longrightarrow> t = shutdownTimeout \<and> (\<exists>sg. SignalReceived sg \<in> set evs)"
proof (induction evs arbitrary: p rule: rev_induct)
  case Nil
  then show ?case by (auto simp: startProcess_def)
next
  case (snoc e evs)
  then obtain q where q: "run startProcess evs = Some q" and s: "step q e = Some p"
    by (auto simp: run_snoc split: option.splits)
  have "\<forall>t. mainAt q = InShutdown t \<longrightarrow> t = shutdownTimeout \<and> (\<exists>sg. SignalReceived sg \<in> set evs)"
    using snoc.IH q by blast
  from step_shutdown_invariant [OF s this] show ?case
    by auto
qed

lemma step_exitCode:
  assumes "step q e = Some p"
  shows "exitCode q = None"
    and "exitCode p =
      (case e of
         ShutdownReturned None \<Rightarrow> Some 0
       | ShutdownReturned (Some err) \<Rightarrow> Some 1
       | ListenAndServeReturned (ListenFailure err) \<Rightarrow> Some 1
       | ListenAndServeReturned ErrServerClosed \<Rightarrow> None
       | SignalReceived sg \<Rightarrow> None)"
    and "(\<exists>res. e = ShutdownReturned res) \<longrightarrow> (\<exists>t. mainAt q = InShutdown t)"
  using assms
  by (cases e; auto split: if_splits listenErr.splits mainThread.splits option.splits)+

text \<open>
  C3. The process ends with code 1 when \<^verbatim>\<open>ListenAndServe\<close> fails at start-up, with
  code 0 when \<^verbatim>\<open>Shutdown\<close> returns without an error after a signal, and with code 1
  when it returns an error (its context, given five seconds, has expired while requests
  were active). \<^verbatim>\<open>Shutdown\<close> is called with a deadline of five seconds. In general,
  whatever the order of the events, the last one decides the exit code; \<^verbatim>\<open>Shutdown\<close>
  only returns after a signal has arrived, and its deadline is always five seconds. The
  passing of time itself is net/http's affair: it appears here as the event that
  \<^verbatim>\<open>Shutdown\<close> has returned.
\<close>

theorem exit_codes:
  "map_option exitCode (run startProcess [ListenAndServeReturned (ListenFailure err)]) = Some (Some 1)
   \<and> map_option exitCode (run startProcess [SignalReceived sg, ShutdownReturned None]) = Some (Some 0)
   \<and> map_option exitCode (run startProcess [SignalReceived sg, ShutdownReturned (Some err)])
        = Some (Some 1)
   \<and> map_option mainAt (run startProcess [SignalReceived sg]) = Some (InShutdown 5)
   \<and> (run startProcess (evs @ [e]) = Some p \<longrightarrow>
        exitCode p =
          (case e of
             ShutdownReturned None \<Rightarrow> Some 0
           | ShutdownReturned (Some err) \<Rightarrow> Some 1
           | ListenAndServeReturned (ListenFailure err) \<Rightarrow> Some 1
           | ListenAndServeReturned ErrServerClosed \<Rightarrow> None
           | SignalReceived sg \<Rightarrow> None)
        \<and> ((\<exists>res. e = ShutdownReturned res) \<longrightarrow> (\<exists>sg. SignalReceived sg \<in> set evs))
        \<and> (\<forall>t. mainAt p = InShutdown t \<longrightarrow> t = 5))"
proof (intro conjI impI)
  show "map_option exitCode (run startProcess [ListenAndServeReturned (ListenFailure err)])
      = Some (Some 1)"
    by (simp add: startProcess_def)
  show "map_option exitCode (run startProcess [SignalReceived sg, ShutdownReturned None])
      = Some (Some 0)"
    by (simp add: startProcess_def)
  show "map_option exitCode (run startProcess [SignalReceived sg, ShutdownReturned (Some err)])
      = Some (Some 1)"
    by (simp add: startProcess_def)
  show "map_option mainAt (run startProcess [SignalReceived sg]) = Some (InShutdown 5)"
    by (simp add: startProcess_def shutdownTimeout_def)
next
  assume r: "run startProcess (evs @ [e]) = Some p"
  then obtain q where q: "run startProcess evs = Some q" and s: "step q e = Some p"
    by (auto simp: run_snoc split: option.splits)
  show "exitCode p =
          (case e of
             ShutdownReturned None \<Rightarrow> Some 0
           | ShutdownReturned (Some err) \<Rightarrow> Some 1
           | ListenAndServeReturned (ListenFailure err) \<Rightarrow> Some 1
           | ListenAndServeReturned ErrServerClosed \<Rightarrow> None
           | SignalReceived sg \<Rightarrow> None)"
    by (rule step_exitCode(2) [OF s])
  show "\<forall>t. mainAt p = InShutdown t \<longrightarrow> t = 5"
    using run_shutdown_invariant [OF r] by (simp add: shutdownTimeout_def)
  assume "\<exists>res. e = ShutdownReturned res"
  then obtain t where "mainAt q = InShutdown t"
    using step_exitCode(3) [OF s] by blast
  then show "\<exists>sg. SignalReceived sg \<in> set evs"
    using run_shutdown_invariant [OF q] by blast
qed

theorem exit_codes_witness:
  "map_option exitCode
       (run startProcess [SignalReceived SIGTERM, ListenAndServeReturned ErrServerClosed,
                          ShutdownReturned None]) = Some (Some 0)
   \<and> map_option exitCode
       (run startProcess [SignalReceived Interrupt, SignalReceived Interrupt,
                          ShutdownReturned (Some ''context deadline exceeded'')]) = Some (Some 1)
   \<and> map_option exitCode
       (run startProcess [ListenAndServeReturned (ListenFailure ''address already in use'')])
       = Some (Some 1)"
proof -
  let ?a = "[SignalReceived SIGTERM, ListenAndServeReturned ErrServerClosed]"
  let ?b = "[SignalReceived Interrupt, SignalReceived Interrupt]"
  obtain p where p: "run startProcess (?a @ [ShutdownReturned None]) = Some p"
    by (simp add: startProcess_def)
  obtain p' where p': "run startProcess (?b @ [ShutdownReturned (Some ''context deadline exceeded'')])
      = Some p'"
    by (simp add: startProcess_def)
  have "exitCode p = Some 0"
    using exit_codes [of _ _ ?a "ShutdownReturned None" p] p by simp
  moreover have "exitCode p' = Some 1"
    using exit_codes [of _ _ ?b "ShutdownReturned (Some ''context deadline exceeded'')" p'] p'
    by simp
  moreover have "map_option exitCode
       (run startProcess [ListenAndServeReturned (ListenFailure ''address already in use'')])
       = Some (Some 1)"
    using exit_codes [of "''address already in use''"] by blast
  ultimately show ?thesis
    using p p' by simp
qed

end
